theory Spec2Isabelle
  imports Complex_Main
begin

section \<open>Python values used by the scraper\<close>

text \<open>
  A Python \<open>str\<close> is a sequence of Unicode code points, so it is modelled as a list of
  natural numbers. \<open>str\<close> turns an ASCII literal into such a list.
\<close>

type_synonym pystr = "nat list"

definition str :: "string \<Rightarrow> pystr" where
  "str s = map of_char s"

text \<open>The exceptions the modelled code can meet; all are subclasses of \<open>Exception\<close>.\<close>

datatype exn =
    ValueError
  | AttributeError
  | RequestException
  | HTTPError
  | ParserError

text \<open>
  \<open>w in s\<close> for two strings is substring containment: \<open>w\<close> starts at some position
  of \<open>s\<close>.
\<close>

fun startswith :: "pystr \<Rightarrow> pystr \<Rightarrow> bool" where
  "startswith s [] = True"
| "startswith [] (c # w) = False"
| "startswith (d # s) (c # w) = (d = c \<and> startswith s w)"

fun str_contains :: "pystr \<Rightarrow> pystr \<Rightarrow> bool" where
  "str_contains w [] = (w = [])"
| "str_contains w (c # s) = (startswith (c # s) w \<or> str_contains w s)"

section \<open>Rating conversion (scraper.py, lines 18-31)\<close>

text \<open>
  The argument \<open>rating_class\<close> of \<open>convert_rating_to_number\<close> is untyped in the source.
  \<open>scrape_page\<close> passes one class token (a \<open>str\<close>); a caller may as well pass the list
  of class tokens of the element. For a \<open>str\<close> the test \<open>word in rating_class\<close> is
  substring containment, for a list it is membership.
\<close>

datatype rating_class = Str pystr | Tokens "pystr list"

fun py_in :: "pystr \<Rightarrow> rating_class \<Rightarrow> bool" where
  "py_in word (Str s) = str_contains word s"
| "py_in word (Tokens ts) = (word \<in> set ts)"

text \<open>The dict literal \<open>rating_map\<close>; a dict iterates in insertion order.\<close>

definition rating_map :: "(pystr \<times> int) list" where
  "rating_map =
     [(str ''One'', 1), (str ''Two'', 2), (str ''Three'', 3), (str ''Four'', 4),
      (str ''Five'', 5)]"

text \<open>The loop \<open>for word, number in rating_map.items()\<close> with its early return.\<close>

fun rating_items_loop :: "(pystr \<times> int) list \<Rightarrow> rating_class \<Rightarrow> int" where
  "rating_items_loop [] rating_class = 0"
| "rating_items_loop ((word, number) # rest) rating_class =
     (if py_in word rating_class then number else rating_items_loop rest rating_class)"

definition convert_rating_to_number :: "rating_class \<Rightarrow> int" where
  "convert_rating_to_number rating_class = rating_items_loop rating_map rating_class"

section \<open>Price cleaning (scraper.py, lines 33-40)\<close>

text \<open>
  A Python \<open>float\<close>. A finite value is kept as the exact rational its literal denotes:
  rounding to binary64 (and with it overflow to infinity, underflow to zero and the sign
  of zero) is not modelled. The non-finite values \<open>inf\<close>, \<open>-inf\<close> and \<open>nan\<close> are
  values of their own, since \<open>float\<close> accepts their literals.
\<close>

datatype pyfloat = Fin rat | PosInf | NegInf | NaN

text \<open>\<open>str.strip()\<close> removes the characters for which \<open>str.isspace\<close> holds, at both ends.\<close>

definition isspace :: "nat \<Rightarrow> bool" where
  "isspace c \<longleftrightarrow>
     (9 \<le> c \<and> c \<le> 13) \<or> (28 \<le> c \<and> c \<le> 32) \<or> c = 133 \<or> c = 160 \<or> c = 5760 \<or>
     (8192 \<le> c \<and> c \<le> 8202) \<or> c = 8232 \<or> c = 8233 \<or> c = 8239 \<or> c = 8287 \<or> c = 12288"

definition strip :: "pystr \<Rightarrow> pystr" where
  "strip s = rev (dropWhile isspace (rev (dropWhile isspace s)))"

text \<open>
  \<open>re.sub(r'[\<pounds>$\<euro>]', '', s)\<close>: every occurrence of the pound sign (U+00A3), the dollar
  sign (U+0024) and the euro sign (U+20AC) is deleted, wherever it stands.
\<close>

definition re_sub_currency :: "pystr \<Rightarrow> pystr" where
  "re_sub_currency s = filter (\<lambda>c. c \<noteq> 163 \<and> c \<noteq> 36 \<and> c \<noteq> 8364) s"

subsection \<open>The builtin \<open>float\<close> on a string\<close>

text \<open>
  \<open>float(s)\<close> as CPython reads a string: Unicode white space becomes a blank, digit groups
  may be separated by single underscores, white space around the literal is dropped, and
  the rest must be a signed decimal literal (digits, an optional point, an optional
  exponent) or one of \<open>inf\<close>, \<open>infinity\<close>, \<open>nan\<close> in any letter case. Anything else
  raises \<open>ValueError\<close>. Decimal digits outside ASCII, which \<open>float\<close> also accepts, are not
  modelled: a string holding one is rejected here.
\<close>

definition is_digit :: "nat \<Rightarrow> bool" where
  "is_digit c \<longleftrightarrow> 48 \<le> c \<and> c \<le> 57"

definition ascii_space :: "nat \<Rightarrow> bool" where
  "ascii_space c \<longleftrightarrow> (9 \<le> c \<and> c \<le> 13) \<or> c = 32"

definition lower :: "nat \<Rightarrow> nat" where
  "lower c = (if 65 \<le> c \<and> c \<le> 90 then c + 32 else c)"

text \<open>An underscore (95) must stand between two digits; \<open>prev\<close> is the character before.\<close>

fun underscores_ok :: "nat \<Rightarrow> pystr \<Rightarrow> bool" where
  "underscores_ok prev [] = (prev \<noteq> 95)"
| "underscores_ok prev (c # cs) =
     ((if c = 95 then is_digit prev else if prev = 95 then is_digit c else True)
      \<and> underscores_ok c cs)"

definition digits_value :: "pystr \<Rightarrow> nat" where
  "digits_value ds = foldl (\<lambda>a c. 10 * a + (c - 48)) 0 ds"

definition scale10 :: "rat \<Rightarrow> int \<Rightarrow> rat" where
  "scale10 m e = (if 0 \<le> e then m * 10 ^ nat e else m / 10 ^ nat (- e))"

text \<open>The exponent part: empty, or \<open>e\<close>/\<open>E\<close>, an optional sign and at least one digit.\<close>

definition parse_exponent :: "pystr \<Rightarrow> int option" where
  "parse_exponent r =
     (case r of
        [] \<Rightarrow> Some 0
      | c # r1 \<Rightarrow>
          if c = 101 \<or> c = 69 then
            (let neg = (case r1 of [] \<Rightarrow> False | s # r2 \<Rightarrow> s = 45);
                 ds = (case r1 of [] \<Rightarrow> [] | s # r2 \<Rightarrow> if s = 45 \<or> s = 43 then r2 else r1)
             in if ds \<noteq> [] \<and> dropWhile is_digit ds = []
                then Some (if neg then - int (digits_value ds) else int (digits_value ds))
                else None)
          else None)"

definition parse_decimal :: "pystr \<Rightarrow> rat option" where
  "parse_decimal s =
     (let ip = takeWhile is_digit s;
          r1 = dropWhile is_digit s;
          point = (case r1 of [] \<Rightarrow> False | c # r \<Rightarrow> c = 46);
          fp = (if point then takeWhile is_digit (tl r1) else []);
          r2 = (if point then dropWhile is_digit (tl r1) else r1)
      in if ip = [] \<and> fp = [] then None
         else (case parse_exponent r2 of
                 None \<Rightarrow> None
               | Some e \<Rightarrow> Some (scale10 (of_nat (digits_value (ip @ fp))) (e - int (length fp)))))"

definition parse_unsigned :: "pystr \<Rightarrow> pyfloat option" where
  "parse_unsigned s =
     (let l = map lower s in
      if l = str ''inf'' \<or> l = str ''infinity'' then Some PosInf
      else if l = str ''nan'' then Some NaN
      else map_option Fin (parse_decimal s))"

fun negate :: "pyfloat \<Rightarrow> pyfloat" where
  "negate (Fin q) = Fin (- q)"
| "negate PosInf = NegInf"
| "negate NegInf = PosInf"
| "negate NaN = NaN"

definition parse_signed :: "pystr \<Rightarrow> pyfloat option" where
  "parse_signed s =
     (case s of
        [] \<Rightarrow> None
      | c # r \<Rightarrow>
          if c = 45 then map_option negate (parse_unsigned r)
          else if c = 43 then parse_unsigned r
          else parse_unsigned s)"

definition strip_ascii :: "pystr \<Rightarrow> pystr" where
  "strip_ascii s = rev (dropWhile ascii_space (rev (dropWhile ascii_space s)))"

definition py_float :: "pystr \<Rightarrow> exn + pyfloat" where
  "py_float s =
     (let t = map (\<lambda>c. if 127 \<le> c \<and> isspace c then 32 else c) s in
      if \<not> underscores_ok 0 t then Inl ValueError
      else (case parse_signed (strip_ascii (filter (\<lambda>c. c \<noteq> 95) t)) of
              None \<Rightarrow> Inl ValueError
            | Some v \<Rightarrow> Inr v))"

subsection \<open>\<open>clean_price\<close>\<close>

text \<open>
  The handler is \<open>except ValueError\<close>: only that exception becomes \<open>0.0\<close>, any other
  would leave the function.
\<close>

definition clean_price :: "pystr \<Rightarrow> exn + pyfloat" where
  "clean_price price_text =
     (let price_clean = re_sub_currency (strip price_text) in
      case py_float price_clean of
        Inr v \<Rightarrow> Inr v
      | Inl e \<Rightarrow> if e = ValueError then Inr (Fin 0) else Inl e)"

section \<open>Parsing one catalogue page (scraper.py, lines 42-104)\<close>

text \<open>
  What the HTML parser reports about one \<open>article.product_pod\<close> container, as far as
  \<open>scrape_page\<close> asks for it. \<open>h3\<close> is \<open>None\<close> when the container has no \<open>h3\<close>,
  \<open>Some None\<close> when the \<open>h3\<close> has no link. The other fields are \<open>None\<close> when
  \<open>article.find\<close> finds no such element; else they hold the text of the element
  (\<open>price_color\<close>: \<open>get_text()\<close>, \<open>instock_availability\<close>: \<open>get_text(strip=True)\<close>) or
  its list of class tokens (\<open>star_rating\<close>).
\<close>

record anchor =
  title_attr :: "pystr option"
  link_text :: pystr
  href :: "pystr option"

record article =
  h3 :: "anchor option option"
  price_color :: "pystr option"
  star_rating :: "pystr list option"
  instock_availability :: "pystr option"

text \<open>The dict \<open>book_data\<close>.\<close>

record book =
  title :: pystr
  price :: pyfloat
  rating :: int
  availability :: pystr
  url :: pystr

text \<open>
  A response of the site: its status code and what \<open>BeautifulSoup(response.content,
  'html.parser').find_all('article', class_='product_pod')\<close> yields, the list of
  containers or an exception of the parser.
\<close>

record response =
  status_code :: nat
  soup :: "exn + article list"

text \<open>
  The libraries the scraper runs on are parameters of the model: \<open>session_get\<close> is
  \<open>self.session.get\<close> (a response, or an exception of the \<open>requests\<close> library), and
  \<open>urljoin\<close> is \<open>urllib.parse.urljoin\<close>, which may raise on a malformed reference.
  A run requests every page URL at most once, so the site's answers are a function of
  the URL.
\<close>

record env =
  session_get :: "pystr \<Rightarrow> exn + response"
  urljoin :: "pystr \<Rightarrow> pystr option \<Rightarrow> exn + pystr"

text \<open>
  The scraper object: \<open>books_data\<close>, and \<open>requests\<close>, the URLs that \<open>self.session\<close> was
  asked for so far, in order.
\<close>

record scraper =
  books_data :: "book list"
  requests :: "pystr list"

definition base_url :: pystr where
  "base_url = str ''https://books.toscrape.com''"

definition init :: scraper where
  "init = \<lparr>books_data = [], requests = []\<rparr>"

text \<open>\<open>response.raise_for_status()\<close> raises \<open>HTTPError\<close> for a status from 400 to 599.\<close>

definition raise_for_status :: "response \<Rightarrow> exn + unit" where
  "raise_for_status r =
     (if 400 \<le> status_code r \<and> status_code r < 600 then Inl HTTPError else Inr ())"

text \<open>Lines 69-75: the first class token that is one of the five words decides.\<close>

definition rating_words :: "pystr list" where
  "rating_words = [str ''One'', str ''Two'', str ''Three'', str ''Four'', str ''Five'']"

fun rating_classes_loop :: "pystr list \<Rightarrow> int" where
  "rating_classes_loop [] = 0"
| "rating_classes_loop (cls # rest) =
     (if cls \<in> set rating_words then convert_rating_to_number (Str cls)
      else rating_classes_loop rest)"

text \<open>Lines 78-83.\<close>

definition availability_of :: "pystr option \<Rightarrow> pystr" where
  "availability_of availability_element =
     (case availability_element of
        Some availability_text \<Rightarrow>
          if str_contains (str ''In stock'') availability_text then str ''In stock''
          else str ''Out of stock''
      | None \<Rightarrow> str ''Unknown'')"

text \<open>
  Lines 57-92, the body of the inner \<open>try\<close>: the record of one container, or the
  exception that ends the attempt. \<open>find\<close> on \<open>None\<close> and \<open>get\<close> on \<open>None\<close> raise
  \<open>AttributeError\<close>.
\<close>

definition book_of_article :: "env \<Rightarrow> article \<Rightarrow> exn + book" where
  "book_of_article e a =
     (case h3 a of
        None \<Rightarrow> Inl AttributeError
      | Some None \<Rightarrow> Inl AttributeError
      | Some (Some title_element) \<Rightarrow>
          (let title_v = (case title_attr title_element of
                            Some t \<Rightarrow> t
                          | None \<Rightarrow> link_text title_element)
           in case urljoin e (base_url @ str ''/catalogue/'') (href title_element) of
                Inl x \<Rightarrow> Inl x
              | Inr book_url \<Rightarrow>
                  (case (case price_color a of
                           Some price_text \<Rightarrow> clean_price price_text
                         | None \<Rightarrow> Inr (Fin 0)) of
                     Inl x \<Rightarrow> Inl x
                   | Inr price_v \<Rightarrow>
                       Inr \<lparr>title = title_v,
                            price = price_v,
                            rating = rating_classes_loop
                              (case star_rating a of Some cs \<Rightarrow> cs | None \<Rightarrow> []),
                            availability = availability_of (instock_availability a),
                            url = book_url\<rparr>)))"

text \<open>
  Lines 55-98: the loop over the containers. A container whose extraction raises is
  skipped (\<open>except Exception: continue\<close>), any other is appended to \<open>books_data\<close>.
\<close>

fun articles_loop :: "env \<Rightarrow> article list \<Rightarrow> scraper \<Rightarrow> scraper" where
  "articles_loop e [] st = st"
| "articles_loop e (a # rest) st =
     (case book_of_article e a of
        Inr b \<Rightarrow> articles_loop e rest (st\<lparr>books_data := books_data st @ [b]\<rparr>)
      | Inl x \<Rightarrow> articles_loop e rest st)"

text \<open>
  Lines 47-100, the body of the outer \<open>try\<close>: the state it leaves, and the value it
  returns or the exception it raises.
\<close>

definition scrape_page_try :: "env \<Rightarrow> scraper \<Rightarrow> pystr \<Rightarrow> scraper \<times> (exn + nat)" where
  "scrape_page_try e st page_url =
     (let st1 = st\<lparr>requests := requests st @ [page_url]\<rparr> in
      case session_get e page_url of
        Inl x \<Rightarrow> (st1, Inl x)
      | Inr r \<Rightarrow>
          (case raise_for_status r of
             Inl x \<Rightarrow> (st1, Inl x)
           | Inr u \<Rightarrow>
               (case soup r of
                  Inl x \<Rightarrow> (st1, Inl x)
                | Inr book_articles \<Rightarrow>
                    (articles_loop e book_articles st1, Inr (length book_articles)))))"

text \<open>\<open>scrape_page\<close>: the handler \<open>except Exception\<close> of line 102 returns 0.\<close>

definition scrape_page :: "env \<Rightarrow> scraper \<Rightarrow> pystr \<Rightarrow> scraper \<times> nat" where
  "scrape_page e st page_url =
     (case scrape_page_try e st page_url of
        (st', Inr n) \<Rightarrow> (st', n)
      | (st', Inl x) \<Rightarrow> (st', 0))"

section \<open>The crawl loop (scraper.py, lines 106-132)\<close>

text \<open>\<open>str(n)\<close> of a natural number, and the f-string of lines 111 and 120.\<close>

fun str_of_nat :: "nat \<Rightarrow> pystr" where
  "str_of_nat n = (if n < 10 then [48 + n] else str_of_nat (n div 10) @ [48 + n mod 10])"

definition catalogue_page :: "nat \<Rightarrow> pystr" where
  "catalogue_page n = base_url @ str ''/catalogue/page-'' @ str_of_nat n @ str ''.html''"

text \<open>The loop \<open>for page_num in range(2, 51)\<close> with its \<open>break\<close>.\<close>

fun pages_loop :: "env \<Rightarrow> nat list \<Rightarrow> scraper \<Rightarrow> scraper" where
  "pages_loop e [] st = st"
| "pages_loop e (page_num # rest) st =
     (case scrape_page e st (catalogue_page page_num) of
        (st', books_on_page) \<Rightarrow>
          if books_on_page = 0 then st' else pages_loop e rest st')"

definition scrape_all_pages :: "env \<Rightarrow> scraper \<Rightarrow> scraper" where
  "scrape_all_pages e st =
     (case scrape_page e st (catalogue_page 1) of
        (st1, books_count) \<Rightarrow>
          if books_count = 0 then st1 else pages_loop e [2..<51] st1)"

section \<open>Validation (scraper.py, lines 155-189)\<close>







section \<open>Notions the properties speak of\<close>

text \<open>
  What one call of \<open>scrape_page\<close> for a URL returns and which records it appends, read off
  a call on a fresh scraper; \<open>scrape_page_eq\<close> below shows that both are the same in
  every state.
\<close>

definition yield :: "env \<Rightarrow> pystr \<Rightarrow> nat" where
  "yield e u = snd (scrape_page e init u)"

definition new_books :: "env \<Rightarrow> pystr \<Rightarrow> book list" where
  "new_books e u = books_data (fst (scrape_page e init u))"

text \<open>The records of the containers of a page whose extraction does not raise.\<close>

definition extracted :: "env \<Rightarrow> article list \<Rightarrow> book list" where
  "extracted e arts =
     concat (map (\<lambda>a. case book_of_article e a of Inr b \<Rightarrow> [b] | Inl x \<Rightarrow> []) arts)"


text \<open>
  The data model of the specification for one record: a non-negative decimal price, a
  rating from 0 to 5, one of three availability strings. \<open>rating_availability_ok\<close> is
  its part about rating and availability.
\<close>

fun nonneg_decimal :: "pyfloat \<Rightarrow> bool" where
  "nonneg_decimal (Fin q) = (0 \<le> q)"
| "nonneg_decimal PosInf = False"
| "nonneg_decimal NegInf = False"
| "nonneg_decimal NaN = False"

definition availability_values :: "pystr list" where
  "availability_values = [str ''In stock'', str ''Out of stock'', str ''Unknown'']"

definition rating_availability_ok :: "book \<Rightarrow> bool" where
  "rating_availability_ok b \<longleftrightarrow>
     0 \<le> rating b \<and> rating b \<le> 5 \<and> availability b \<in> set availability_values"

definition item_record_invariant :: "book \<Rightarrow> bool" where
  "item_record_invariant b \<longleftrightarrow> nonneg_decimal (price b) \<and> rating_availability_ok b"



subsection \<open>A small site, for concrete runs\<close>

text \<open>
  Page 1 has two containers, one complete and one without a heading; page 2 answers with
  no container; every other request fails in the network. The reference resolver only
  covers the plain relative references this site uses.
\<close>

definition demo_urljoin :: "pystr \<Rightarrow> pystr option \<Rightarrow> exn + pystr" where
  "demo_urljoin b r = (case r of None \<Rightarrow> Inr b | Some h \<Rightarrow> Inr (b @ h))"

definition demo_article :: article where
  "demo_article =
     \<lparr>h3 = Some (Some \<lparr>title_attr = Some (str ''A Light in the Attic''),
                       link_text = str ''A Light in the ...'',
                       href = Some (str ''a-light-in-the-attic_1000/index.html'')\<rparr>),
      price_color = Some (163 # str ''51.77''),
      star_rating = Some [str ''star-rating'', str ''Three''],
      instock_availability = Some (str ''In stock'')\<rparr>"

definition demo_broken :: article where
  "demo_broken =
     \<lparr>h3 = None, price_color = None, star_rating = None, instock_availability = None\<rparr>"

definition demo_site :: env where
  "demo_site =
     \<lparr>session_get = (\<lambda>u.
        if u = catalogue_page 1
        then Inr \<lparr>status_code = 200, soup = Inr [demo_article, demo_broken]\<rparr>
        else if u = catalogue_page 2 then Inr \<lparr>status_code = 200, soup = Inr []\<rparr>
        else Inl RequestException),
      urljoin = demo_urljoin\<rparr>"

text \<open>The record of the complete container, and a container with a negative price text.\<close>

definition demo_record :: book where
  "demo_record =
     \<lparr>title = str ''A Light in the Attic'', price = Fin (5177 / 100), rating = 3,
      availability = str ''In stock'',
      url = str ''https://books.toscrape.com/catalogue/a-light-in-the-attic_1000/index.html''\<rparr>"

definition demo_negative :: article where
  "demo_negative = demo_article\<lparr>price_color := Some (163 # str ''-5.00'')\<rparr>"

definition demo_negative_site :: env where
  "demo_negative_site =
     demo_site\<lparr>session_get := \<lambda>u. Inr \<lparr>status_code = 200, soup = Inr [demo_negative]\<rparr>\<rparr>"

section \<open>Properties\<close>

lemma startswith_iff: "startswith s w \<longleftrightarrow> (\<exists>q. s = w @ q)"
  by (induction s w rule: startswith.induct) auto

lemma str_contains_iff: "str_contains w s \<longleftrightarrow> (\<exists>p q. s = p @ w @ q)"
proof (induction s)
  case Nil
  then show ?case by auto
next
  case (Cons c s)
  show ?case
  proof
    assume "str_contains w (c # s)"
    then consider "startswith (c # s) w" | "str_contains w s" by auto
    then show "\<exists>p q. c # s = p @ w @ q"
    proof cases
      case 1
      then obtain q where "c # s = w @ q" by (auto simp: startswith_iff)
      then have "c # s = [] @ w @ q" by simp
      then show ?thesis by blast
    next
      case 2
      with Cons.IH obtain p q where "s = p @ w @ q" by blast
      then have "c # s = (c # p) @ w @ q" by simp
      then show ?thesis by blast
    qed
  next
    assume "\<exists>p q. c # s = p @ w @ q"
    then obtain p q where pq: "c # s = p @ w @ q" by blast
    show "str_contains w (c # s)"
    proof (cases p)
      case Nil
      with pq have "startswith (c # s) w" by (auto simp: startswith_iff)
      then show ?thesis by simp
    next
      case (Cons d p')
      with pq have "s = p' @ w @ q" by simp
      with Cons.IH have "str_contains w s" by blast
      then show ?thesis by simp
    qed
  qed
qed

subsection \<open>Rating conversion\<close>

lemma rating_items_loop_find:
  "rating_items_loop m rc = (case find (\<lambda>(w, n). py_in w rc) m of Some (w, n) \<Rightarrow> n | None \<Rightarrow> 0)"
  by (induction m rc rule: rating_items_loop.induct) auto

lemma convert_tokens_chain:
  "convert_rating_to_number (Tokens ts) =
     (if str ''One'' \<in> set ts then 1 else if str ''Two'' \<in> set ts then 2
      else if str ''Three'' \<in> set ts then 3 else if str ''Four'' \<in> set ts then 4
      else if str ''Five'' \<in> set ts then 5 else 0)"
  by (simp add: convert_rating_to_number_def rating_map_def)

lemma convert_word:
  "convert_rating_to_number (Str (str ''One'')) = 1"
  "convert_rating_to_number (Str (str ''Two'')) = 2"
  "convert_rating_to_number (Str (str ''Three'')) = 3"
  "convert_rating_to_number (Str (str ''Four'')) = 4"
  "convert_rating_to_number (Str (str ''Five'')) = 5"
  by (simp_all add: convert_rating_to_number_def rating_map_def str_def)

lemma convert_rating_word:
  "c \<in> set rating_words \<Longrightarrow> map_of rating_map c = Some (convert_rating_to_number (Str c))"
  by (auto simp: rating_words_def convert_word) (simp_all add: rating_map_def str_def)

lemma rating_classes_loop_find:
  "rating_classes_loop cs =
     (case find (\<lambda>c. c \<in> set rating_words) cs of
        Some c \<Rightarrow> convert_rating_to_number (Str c) | None \<Rightarrow> 0)"
  by (induction cs) auto

lemma rating_classes_loop_range: "0 \<le> rating_classes_loop cs \<and> rating_classes_loop cs \<le> 5"
  by (induction cs) (auto simp: rating_words_def convert_word)

lemma rating_items_loop_first:
  assumes "\<exists>p \<in> set m. py_in (fst p) rc"
  shows "\<exists>i<length m. py_in (fst (m ! i)) rc \<and> (\<forall>j<i. \<not> py_in (fst (m ! j)) rc) \<and>
           rating_items_loop m rc = snd (m ! i)"
  using assms
proof (induction m)
  case Nil
  then show ?case by simp
next
  case (Cons p m)
  obtain w n where p: "p = (w, n)" by (cases p)
  show ?case
  proof (cases "py_in w rc")
    case True
    with p show ?thesis by (intro exI [of _ 0]) simp
  next
    case False
    with Cons.prems p have "\<exists>p \<in> set m. py_in (fst p) rc" by auto
    with Cons.IH obtain i where i: "i < length m" "py_in (fst (m ! i)) rc"
      "\<forall>j<i. \<not> py_in (fst (m ! j)) rc" "rating_items_loop m rc = snd (m ! i)"
      by blast
    have "\<not> py_in (fst ((p # m) ! j)) rc" if "j < Suc i" for j
      using that i(3) False p by (cases j) auto
    with i False p show ?thesis
      by (intro exI [of _ "Suc i"]) simp
  qed
qed

lemma rating_classes_loop_first:
  assumes "\<exists>c \<in> set cs. c \<in> set rating_words"
  shows "\<exists>pre c post. cs = pre @ c # post \<and> (\<forall>x \<in> set pre. x \<notin> set rating_words) \<and>
           c \<in> set rating_words \<and> rating_classes_loop cs = convert_rating_to_number (Str c)"
  using assms
proof (induction cs)
  case Nil
  then show ?case by simp
next
  case (Cons d cs)
  show ?case
  proof (cases "d \<in> set rating_words")
    case True
    then have "d # cs = [] @ d # cs \<and> (\<forall>x \<in> set []. x \<notin> set rating_words) \<and>
        d \<in> set rating_words \<and> rating_classes_loop (d # cs) = convert_rating_to_number (Str d)"
      by simp
    then show ?thesis by blast
  next
    case False
    with Cons obtain pre c post where h: "cs = pre @ c # post"
      "\<forall>x \<in> set pre. x \<notin> set rating_words" "c \<in> set rating_words"
      "rating_classes_loop cs = convert_rating_to_number (Str c)"
      by auto
    with False have "d # cs = (d # pre) @ c # post \<and> (\<forall>x \<in> set (d # pre). x \<notin> set rating_words) \<and>
        c \<in> set rating_words \<and> rating_classes_loop (d # cs) = convert_rating_to_number (Str c)"
      by simp
    then show ?thesis by blast
  qed
qed

lemma convert_word_range:
  "c \<in> set rating_words \<Longrightarrow>
     1 \<le> convert_rating_to_number (Str c) \<and> convert_rating_to_number (Str c) \<le> 5"
  by (auto simp: rating_words_def convert_word)

text \<open>
  Claim C5. For every list of class tokens, \<open>convert_rating_to_number\<close> returns the number
  of the first entry of the ordered mapping One, Two, Three, Four, Five whose word is
  among the tokens, and 0 when there is none. The result lies between 0 and 5, and it is
  0 exactly when no word of the mapping is among the tokens.
\<close>

theorem convert_rating_first_match:
  "convert_rating_to_number (Tokens ts) =
     (case find (\<lambda>(w, n). w \<in> set ts) rating_map of Some (w, n) \<Rightarrow> n | None \<Rightarrow> 0) \<and>
   0 \<le> convert_rating_to_number (Tokens ts) \<and> convert_rating_to_number (Tokens ts) \<le> 5 \<and>
   ((convert_rating_to_number (Tokens ts) = 0) = (\<forall>w \<in> set (map fst rating_map). w \<notin> set ts))"
proof -
  have "convert_rating_to_number (Tokens ts) =
     (case find (\<lambda>(w, n). w \<in> set ts) rating_map of Some (w, n) \<Rightarrow> n | None \<Rightarrow> 0)"
    by (simp add: convert_rating_to_number_def rating_items_loop_find)
  moreover have "0 \<le> convert_rating_to_number (Tokens ts) \<and> convert_rating_to_number (Tokens ts) \<le> 5"
    by (simp add: convert_tokens_chain)
  moreover have "(convert_rating_to_number (Tokens ts) = 0) = (\<forall>w \<in> set (map fst rating_map). w \<notin> set ts)"
    by (simp add: convert_tokens_chain) (simp add: rating_map_def)
  ultimately show ?thesis by blast
qed

theorem convert_rating_first_match_witness:
  "convert_rating_to_number (Tokens [str ''star-rating'', str ''Three'']) = 3 \<and>
   convert_rating_to_number (Tokens [str ''star-rating'']) = 0"
  using convert_rating_first_match [of "[str ''star-rating'', str ''Three'']"]
    convert_rating_first_match [of "[str ''star-rating'']"]
  by (simp add: rating_map_def str_def)

text \<open>
  Claim C10. Given a single string, \<open>convert_rating_to_number\<close> matches by containment:
  \<open>Onerous\<close> is none of the five words and still converts to 1, as does every string
  that has \<open>One\<close> somewhere inside.
\<close>

theorem substring_match_on_string:
  "convert_rating_to_number (Str (str ''Onerous'')) = 1 \<and>
   str ''Onerous'' \<notin> set (map fst rating_map) \<and>
   (\<forall>p q. convert_rating_to_number (Str (p @ str ''One'' @ q)) = 1)"
proof -
  have "str_contains (str ''One'') (p @ str ''One'' @ q)" for p q
    by (auto simp: str_contains_iff)
  then have "\<forall>p q. convert_rating_to_number (Str (p @ str ''One'' @ q)) = 1"
    by (simp add: convert_rating_to_number_def rating_map_def)
  moreover have "convert_rating_to_number (Str (str ''Onerous'')) = 1"
    by (simp add: convert_rating_to_number_def rating_map_def str_def)
  moreover have "str ''Onerous'' \<notin> set (map fst rating_map)"
    by (simp add: rating_map_def str_def)
  ultimately show ?thesis by blast
qed

text \<open>
  Claim C4 says that an input with more than one recognized label converts to 0. It does
  not: the tokens Two, One convert to 1, and the loop of \<open>scrape_page\<close> over the class
  tokens star-rating, Two, One gives 2.
\<close>

theorem multi_match_counterexample:
  "convert_rating_to_number (Tokens [str ''Two'', str ''One'']) = 1 \<and>
   rating_classes_loop [str ''star-rating'', str ''Two'', str ''One''] = 2"
  by (simp add: convert_rating_to_number_def rating_map_def rating_words_def str_def)

text \<open>
  Claim C4, amended. For every list of class tokens holding two different recognized
  labels, the conversion is never 0. \<open>convert_rating_to_number\<close> returns the number of the
  first entry of the ordered mapping whose word is among the tokens; the loop of
  \<open>scrape_page\<close> converts the first token, in the order of the class attribute, that is
  one of the five words. Both results lie between 1 and 5.
\<close>

theorem multi_match_takes_first:
  assumes "w1 \<in> set rating_words" and "w2 \<in> set rating_words" and "w1 \<noteq> w2"
    and "w1 \<in> set ts" and "w2 \<in> set ts"
  shows "(\<exists>i<length rating_map.
            fst (rating_map ! i) \<in> set ts \<and> (\<forall>j<i. fst (rating_map ! j) \<notin> set ts) \<and>
            convert_rating_to_number (Tokens ts) = snd (rating_map ! i)) \<and>
         1 \<le> convert_rating_to_number (Tokens ts) \<and> convert_rating_to_number (Tokens ts) \<le> 5 \<and>
         (\<exists>pre c post. ts = pre @ c # post \<and> (\<forall>x \<in> set pre. x \<notin> set rating_words) \<and>
            c \<in> set rating_words \<and> rating_classes_loop ts = convert_rating_to_number (Str c)) \<and>
         1 \<le> rating_classes_loop ts \<and> rating_classes_loop ts \<le> 5"
proof -
  from assms(1,4) have "w1 \<in> set (map fst rating_map)"
    by (simp add: rating_words_def rating_map_def)
  with assms(4) have "\<exists>p \<in> set rating_map. py_in (fst p) (Tokens ts)"
    by auto
  from rating_items_loop_first [OF this]
  have first: "\<exists>i<length rating_map.
            fst (rating_map ! i) \<in> set ts \<and> (\<forall>j<i. fst (rating_map ! j) \<notin> set ts) \<and>
            convert_rating_to_number (Tokens ts) = snd (rating_map ! i)"
    by (simp add: convert_rating_to_number_def)
  from assms(1,4) have "1 \<le> convert_rating_to_number (Tokens ts) \<and>
      convert_rating_to_number (Tokens ts) \<le> 5"
    by (auto simp: convert_tokens_chain rating_words_def)
  moreover from assms(1,4) have "\<exists>c \<in> set ts. c \<in> set rating_words"
    by blast
  from rating_classes_loop_first [OF this]
  obtain pre c post where h: "ts = pre @ c # post" "\<forall>x \<in> set pre. x \<notin> set rating_words"
    "c \<in> set rating_words" "rating_classes_loop ts = convert_rating_to_number (Str c)"
    by blast
  moreover from h(3,4) convert_word_range
  have "1 \<le> rating_classes_loop ts \<and> rating_classes_loop ts \<le> 5"
    by simp
  ultimately show ?thesis using first by blast
qed

theorem multi_match_takes_first_witness:
  "str ''One'' \<in> set rating_words \<and> str ''Two'' \<in> set rating_words \<and>
   str ''One'' \<noteq> str ''Two'' \<and>
   convert_rating_to_number (Tokens [str ''star-rating'', str ''Two'', str ''One'']) = 1 \<and>
   rating_classes_loop [str ''star-rating'', str ''Two'', str ''One''] = 2"
proof -
  have a: "str ''One'' \<in> set rating_words" "str ''Two'' \<in> set rating_words"
    "str ''One'' \<noteq> str ''Two''"
    by (simp_all add: rating_words_def str_def)
  have b: "str ''One'' \<in> set [str ''star-rating'', str ''Two'', str ''One'']"
    "str ''Two'' \<in> set [str ''star-rating'', str ''Two'', str ''One'']"
    by simp_all
  from multi_match_takes_first [OF a b] a show ?thesis
    by (simp add: convert_rating_to_number_def rating_map_def rating_words_def str_def)
qed


subsection \<open>Price cleaning\<close>
















subsection \<open>The record of one container\<close>

lemma book_of_article_fields:
  assumes "book_of_article e a = Inr b"
  shows "availability b = availability_of (instock_availability a)"
    and "rating b = rating_classes_loop (case star_rating a of Some cs \<Rightarrow> cs | None \<Rightarrow> [])"
    and "(case price_color a of Some t \<Rightarrow> clean_price t | None \<Rightarrow> Inr (Fin 0)) = Inr (price b)"
  using assms
  by (auto simp: book_of_article_def Let_def split: option.splits sum.splits)

lemma book_of_article_ok:
  assumes "book_of_article e a = Inr b"
  shows "rating_availability_ok b"
  using book_of_article_fields(1,2) [OF assms] rating_classes_loop_range
  by (simp add: rating_availability_ok_def availability_of_def availability_values_def
      split: option.splits)

lemma book_of_article_availability_update:
  "book_of_article e (a\<lparr>instock_availability := x\<rparr>) =
     (case book_of_article e a of
        Inl y \<Rightarrow> Inl y
      | Inr b \<Rightarrow> Inr (b\<lparr>availability := availability_of x\<rparr>))"
  by (simp add: book_of_article_def Let_def split: option.splits sum.splits)

text \<open>
  Claim C7. The availability of every record is a three-way function of the availability
  element of its container: \<open>In stock\<close> when the element is there and its text has
  \<open>In stock\<close> somewhere inside, \<open>Out of stock\<close> when it is there and its text has not,
  \<open>Unknown\<close> when there is no such element.
\<close>

theorem availability_three_way:
  assumes "book_of_article e a = Inr b"
  shows "(\<forall>p q. instock_availability a = Some (p @ str ''In stock'' @ q) \<longrightarrow>
            availability b = str ''In stock'') \<and>
         (\<forall>t. instock_availability a = Some t \<and> (\<nexists>p q. t = p @ str ''In stock'' @ q) \<longrightarrow>
            availability b = str ''Out of stock'') \<and>
         (instock_availability a = None \<longrightarrow> availability b = str ''Unknown'')"
  using book_of_article_fields(1) [OF assms]
  by (auto simp: availability_of_def str_contains_iff)

subsection \<open>One call of \<open>scrape_page\<close>\<close>

lemma articles_loop_eq:
  "articles_loop e arts st = st\<lparr>books_data := books_data st @ extracted e arts\<rparr>"
  by (induction arts arbitrary: st) (auto simp: extracted_def split: sum.splits)

lemma scrape_page_try_eq:
  "scrape_page_try e st u =
     (st\<lparr>books_data := books_data st @ books_data (fst (scrape_page_try e init u)),
         requests := requests st @ [u]\<rparr>,
      snd (scrape_page_try e init u))"
  by (simp add: scrape_page_try_def articles_loop_eq init_def Let_def split: sum.splits)

lemma scrape_page_eq:
  "scrape_page e st u =
     (st\<lparr>books_data := books_data st @ new_books e u, requests := requests st @ [u]\<rparr>,
      yield e u)"
  unfolding scrape_page_def new_books_def yield_def
  by (subst scrape_page_try_eq) (simp split: sum.splits prod.splits)

lemma yield_zero_no_books: "yield e u = 0 \<Longrightarrow> new_books e u = []"
  by (auto simp: yield_def new_books_def scrape_page_def scrape_page_try_def Let_def init_def
      split: sum.splits)

text \<open>A page that is fetched and parsed without an exception.\<close>

lemma scrape_page_ok:
  assumes "session_get e u = Inr r" and "\<not> (400 \<le> status_code r \<and> status_code r < 600)"
    and "soup r = Inr arts"
  shows "scrape_page e st u =
     (st\<lparr>books_data := books_data st @ extracted e arts, requests := requests st @ [u]\<rparr>,
      length arts)"
  using assms
  by (auto simp: scrape_page_def scrape_page_try_def raise_for_status_def articles_loop_eq)

lemma yield_ok:
  assumes "session_get e u = Inr r" and "\<not> (400 \<le> status_code r \<and> status_code r < 600)"
    and "soup r = Inr arts"
  shows "yield e u = length arts" and "new_books e u = extracted e arts"
  using scrape_page_ok [OF assms, of init] by (simp_all add: yield_def new_books_def init_def)


lemma length_extracted: "length (extracted e arts) = length (filter (\<lambda>a. \<not> isl (book_of_article e a)) arts)"
  by (induction arts) (auto simp: extracted_def split: sum.splits)


text \<open>
  Claim C3. On a page that is fetched and parsed, \<open>scrape_page\<close> returns the number of
  containers found. The records it appends are those of the containers whose extraction
  does not raise, so they are at most as many as the returned count, and fewer as soon
  as one extraction raises.
\<close>

theorem scrape_page_returns_container_count:
  assumes "session_get e u = Inr r" and "\<not> (400 \<le> status_code r \<and> status_code r < 600)"
    and "soup r = Inr arts"
  shows "snd (scrape_page e st u) = length arts \<and>
         books_data (fst (scrape_page e st u)) = books_data st @ extracted e arts \<and>
         length (extracted e arts) \<le> snd (scrape_page e st u) \<and>
         ((\<exists>a \<in> set arts. \<exists>x. book_of_article e a = Inl x) \<longrightarrow>
            length (extracted e arts) < snd (scrape_page e st u))"
proof -
  have le: "length (extracted e arts) \<le> length arts"
    by (simp add: length_extracted)
  have lt: "length (extracted e arts) < length arts"
    if "\<exists>a \<in> set arts. \<exists>x. book_of_article e a = Inl x"
  proof -
    from that obtain a where a: "a \<in> set arts" "isl (book_of_article e a)"
      by auto
    have "length (filter (\<lambda>a. \<not> isl (book_of_article e a)) arts) < length arts"
      by (rule length_filter_less [OF a(1)]) (simp add: a(2))
    then show ?thesis by (simp add: length_extracted)
  qed
  from scrape_page_ok [OF assms, of st] le lt show ?thesis by simp
qed

subsection \<open>Page URLs are pairwise different\<close>

lemma str_of_nat_nonempty: "str_of_nat n \<noteq> []"
  by (subst str_of_nat.simps) simp

lemma str_of_nat_inj: "str_of_nat n = str_of_nat m \<Longrightarrow> n = m"
proof (induction n arbitrary: m rule: str_of_nat.induct)
  case (1 n)
  show ?case
  proof (cases "n < 10")
    case True
    show ?thesis
    proof (cases "m < 10")
      case True
      with \<open>n < 10\<close> "1.prems" show ?thesis
        by (subst (asm) str_of_nat.simps, subst (asm) (2) str_of_nat.simps) simp
    next
      case False
      with \<open>n < 10\<close> "1.prems" show ?thesis
        using str_of_nat_nonempty [of "m div 10"]
        by (subst (asm) str_of_nat.simps, subst (asm) (2) str_of_nat.simps) simp
    qed
  next
    case False
    show ?thesis
    proof (cases "m < 10")
      case True
      with \<open>\<not> n < 10\<close> "1.prems" show ?thesis
        using str_of_nat_nonempty [of "n div 10"]
        by (subst (asm) str_of_nat.simps, subst (asm) (2) str_of_nat.simps) simp
    next
      case mf: False
      from "1.prems" False mf
      have "str_of_nat (n div 10) @ [48 + n mod 10] = str_of_nat (m div 10) @ [48 + m mod 10]"
        by (subst (asm) str_of_nat.simps, subst (asm) (2) str_of_nat.simps) simp
      then have "str_of_nat (n div 10) = str_of_nat (m div 10)" and md: "n mod 10 = m mod 10"
        by simp_all
      with "1.IH" False have "n div 10 = m div 10" by blast
      with md show ?thesis
        by (metis div_mult_mod_eq)
    qed
  qed
qed

lemma catalogue_page_inj: "catalogue_page n = catalogue_page m \<Longrightarrow> n = m"
  by (simp add: catalogue_page_def str_of_nat_inj)

lemma catalogue_page_eq_iff: "catalogue_page n = catalogue_page m \<longleftrightarrow> n = m"
  using catalogue_page_inj by blast

subsection \<open>The crawl loop\<close>

text \<open>The first page is treated as one more round of the loop.\<close>

lemma scrape_all_pages_loop: "scrape_all_pages e st = pages_loop e [1..<51] st"
proof -
  have h: "[1..<51] = 1 # [2..<(51::nat)]"
    by (simp add: upt_conv_Cons)
  show ?thesis
    unfolding scrape_all_pages_def h by (simp only: pages_loop.simps)
qed

lemma pages_loop_upt:
  assumes "a \<le> k" and "k < b" and "yield e (catalogue_page k) = 0"
  shows "\<exists>j. a \<le> j \<and> j \<le> k \<and>
           requests (pages_loop e [a..<b] st) = requests st @ map catalogue_page [a..<Suc j] \<and>
           books_data (pages_loop e [a..<b] st) =
             books_data st @ concat (map (\<lambda>n. new_books e (catalogue_page n)) [a..<j])"
  using assms
proof (induction "k - a" arbitrary: a st)
  case 0
  then have "a = k" by simp
  with 0 have "[a..<b] = k # [Suc k..<b]"
    by (simp add: upt_conv_Cons)
  with 0 \<open>a = k\<close> show ?case
    by (auto simp: scrape_page_eq yield_zero_no_books intro!: exI [of _ k])
next
  case (Suc d)
  then have lt: "a < k" and ab: "a < b" by simp_all
  then have upt: "[a..<b] = a # [Suc a..<b]"
    by (simp add: upt_conv_Cons)
  show ?case
  proof (cases "yield e (catalogue_page a) = 0")
    case True
    with upt lt show ?thesis
      by (auto simp: scrape_page_eq yield_zero_no_books intro!: exI [of _ a])
  next
    case False
    let ?st = "st\<lparr>books_data := books_data st @ new_books e (catalogue_page a),
                   requests := requests st @ [catalogue_page a]\<rparr>"
    from Suc have "d = k - Suc a" "Suc a \<le> k" by simp_all
    from Suc.hyps(1) [OF this Suc.prems(2,3), of ?st]
    obtain j where j: "Suc a \<le> j" "j \<le> k"
      "requests (pages_loop e [Suc a..<b] ?st) = requests ?st @ map catalogue_page [Suc a..<Suc j]"
      "books_data (pages_loop e [Suc a..<b] ?st) =
         books_data ?st @ concat (map (\<lambda>n. new_books e (catalogue_page n)) [Suc a..<j])"
      by blast
    from j(1) have u1: "[a..<Suc j] = a # [Suc a..<Suc j]" and u2: "[a..<j] = a # [Suc a..<j]"
      by (simp_all add: upt_conv_Cons)
    from False upt have "pages_loop e [a..<b] st = pages_loop e [Suc a..<b] ?st"
      by (simp add: scrape_page_eq)
    with j u1 u2 show ?thesis
      by (intro exI [of _ j]) simp
  qed
qed

text \<open>
  Claim C1. Let page \<open>k\<close>, with \<open>1 \<le> k \<le> 50\<close>, be a page whose fetch and parse yields zero
  items. Then a crawl from a fresh scraper requests no page after \<open>k\<close>: it requests the
  pages \<open>1..j\<close> for some \<open>j \<le> k\<close> (the first page that yields zero), and at its end the
  collection holds the records appended for the pages \<open>1..j-1\<close>, in page order, and
  nothing else; these are pages among \<open>1..k-1\<close>.
\<close>

theorem crawl_stops_at_empty_page:
  assumes "1 \<le> k" and "k \<le> 50" and "yield e (catalogue_page k) = 0"
  shows "(\<forall>n>k. catalogue_page n \<notin> set (requests (scrape_all_pages e init))) \<and>
         (\<exists>j. 1 \<le> j \<and> j \<le> k \<and>
            requests (scrape_all_pages e init) = map catalogue_page [1..<Suc j] \<and>
            books_data (scrape_all_pages e init) =
              concat (map (\<lambda>n. new_books e (catalogue_page n)) [1..<j]))"
proof -
  from assms have "k < 51" by simp
  from pages_loop_upt [OF assms(1) this assms(3), of init]
  obtain j where j: "1 \<le> j" "j \<le> k"
    "requests (scrape_all_pages e init) = map catalogue_page [1..<Suc j]"
    "books_data (scrape_all_pages e init) =
       concat (map (\<lambda>n. new_books e (catalogue_page n)) [1..<j])"
    by (auto simp: scrape_all_pages_loop init_def)
  have "catalogue_page n \<notin> set (requests (scrape_all_pages e init))" if "k < n" for n
  proof
    assume "catalogue_page n \<in> set (requests (scrape_all_pages e init))"
    with j(3) have "catalogue_page n \<in> catalogue_page ` {1..<Suc j}"
      by (simp only: set_map set_upt)
    then obtain m where "m \<in> {1..<Suc j}" "catalogue_page n = catalogue_page m"
      by blast
    with catalogue_page_inj have "n < Suc j" by fastforce
    with j(2) that show False by simp
  qed
  with j show ?thesis by blast
qed

subsection \<open>The records of the collection\<close>

lemma extracted_ok: "b \<in> set (extracted e arts) \<Longrightarrow> rating_availability_ok b"
  by (induction arts) (auto simp: extracted_def book_of_article_ok split: sum.splits)

lemma new_books_ok: "b \<in> set (new_books e u) \<Longrightarrow> rating_availability_ok b"
  by (auto simp: new_books_def scrape_page_def scrape_page_try_def Let_def init_def
      articles_loop_eq extracted_ok split: sum.splits)

lemma pages_loop_appends:
  "\<exists>new. books_data (pages_loop e ns st) = books_data st @ new \<and>
         (\<forall>b \<in> set new. rating_availability_ok b)"
proof (induction ns arbitrary: st)
  case Nil
  then show ?case by simp
next
  case (Cons n ns)
  let ?st = "st\<lparr>books_data := books_data st @ new_books e (catalogue_page n),
                 requests := requests st @ [catalogue_page n]\<rparr>"
  show ?case
  proof (cases "yield e (catalogue_page n) = 0")
    case True
    then show ?thesis
      by (simp add: scrape_page_eq yield_zero_no_books)
  next
    case False
    from Cons [of ?st] obtain new where new:
      "books_data (pages_loop e ns ?st) = books_data ?st @ new"
      "\<forall>b \<in> set new. rating_availability_ok b"
      by blast
    from False have "pages_loop e (n # ns) st = pages_loop e ns ?st"
      by (simp add: scrape_page_eq)
    with new have "books_data (pages_loop e (n # ns) st) =
        books_data st @ (new_books e (catalogue_page n) @ new) \<and>
        (\<forall>b \<in> set (new_books e (catalogue_page n) @ new). rating_availability_ok b)"
      by (auto simp: new_books_ok)
    then show ?thesis by blast
  qed
qed

text \<open>
  Claim C8, amended. Every operation on the collection only appends to it, so no record
  changes once it is there. Every record has a rating from 0 to 5 and one of the three
  availability strings, after \<open>scrape_page\<close> and after \<open>scrape_all_pages\<close>, provided the
  records already in the collection have. The price of a record is what \<open>clean_price\<close>
  returns for the price text, or 0.0 when there is no price element; nothing makes it
  non-negative.
\<close>

theorem records_keep_rating_and_availability:
  assumes "\<forall>b \<in> set (books_data st). rating_availability_ok b"
  shows "(\<exists>new. books_data (fst (scrape_page e st u)) = books_data st @ new) \<and>
         (\<forall>b \<in> set (books_data (fst (scrape_page e st u))). rating_availability_ok b) \<and>
         (\<exists>new. books_data (scrape_all_pages e st) = books_data st @ new) \<and>
         (\<forall>b \<in> set (books_data (scrape_all_pages e st)). rating_availability_ok b) \<and>
         (\<forall>a b. book_of_article e a = Inr b \<longrightarrow>
            (case price_color a of Some t \<Rightarrow> clean_price t | None \<Rightarrow> Inr (Fin 0)) =
              Inr (price b))"
proof -
  have "books_data (fst (scrape_page e st u)) = books_data st @ new_books e u"
    by (simp add: scrape_page_eq)
  moreover from this assms
  have "\<forall>b \<in> set (books_data (fst (scrape_page e st u))). rating_availability_ok b"
    by (auto simp: new_books_ok)
  moreover from pages_loop_appends [of e "[1..<51]" st] obtain new where
    "books_data (scrape_all_pages e st) = books_data st @ new"
    "\<forall>b \<in> set new. rating_availability_ok b"
    by (auto simp: scrape_all_pages_loop)
  moreover from this assms
  have "\<forall>b \<in> set (books_data (scrape_all_pages e st)). rating_availability_ok b"
    by auto
  moreover have "\<forall>a b. book_of_article e a = Inr b \<longrightarrow>
      (case price_color a of Some t \<Rightarrow> clean_price t | None \<Rightarrow> Inr (Fin 0)) = Inr (price b)"
    using book_of_article_fields(3) by blast
  ultimately show ?thesis by blast
qed

subsection \<open>Validation\<close>





subsection \<open>The small site, evaluated\<close>

lemmas float_eval = clean_price_def strip_def str_def isspace_def re_sub_currency_def
  py_float_def strip_ascii_def ascii_space_def parse_signed_def parse_unsigned_def
  parse_decimal_def lower_def is_digit_def parse_exponent_def scale10_def digits_value_def

lemma demo_yield_1: "yield demo_site (catalogue_page 1) = 2"
  using yield_ok(1) [of demo_site "catalogue_page 1"
      "\<lparr>status_code = 200, soup = Inr [demo_article, demo_broken]\<rparr>"
      "[demo_article, demo_broken]"]
  by (simp add: demo_site_def)

lemma demo_yield_2: "yield demo_site (catalogue_page 2) = 0"
  using yield_ok(1) [of demo_site "catalogue_page 2" "\<lparr>status_code = 200, soup = Inr []\<rparr>" "[]"]
  by (simp add: demo_site_def catalogue_page_eq_iff)

lemmas demo_eval = book_of_article_def demo_site_def demo_article_def demo_urljoin_def
  float_eval base_url_def rating_words_def convert_rating_to_number_def rating_map_def
  availability_of_def demo_record_def

lemma demo_book: "book_of_article demo_site demo_article = Inr demo_record"
  by (simp add: demo_eval)

lemma demo_negative_book:
  "book_of_article demo_negative_site demo_negative = Inr (demo_record\<lparr>price := Fin (- 5)\<rparr>)"
  by (simp add: demo_negative_site_def demo_negative_def demo_eval)

lemma demo_negative_page:
  "scrape_page demo_negative_site st u =
     (st\<lparr>books_data := books_data st @ [demo_record\<lparr>price := Fin (- 5)\<rparr>],
         requests := requests st @ [u]\<rparr>, 1)"
proof -
  let ?r = "\<lparr>status_code = 200, soup = Inr [demo_negative]\<rparr>"
  have "session_get demo_negative_site u = Inr ?r"
    by (simp add: demo_negative_site_def)
  from scrape_page_ok [OF this, of "[demo_negative]" st] show ?thesis
    by (simp add: extracted_def demo_negative_book)
qed

lemma demo_broken_raises: "book_of_article demo_site demo_broken = Inl AttributeError"
  by (simp add: book_of_article_def demo_broken_def)

theorem crawl_stops_at_empty_page_witness:
  "(1::nat) \<le> 2 \<and> (2::nat) \<le> 50 \<and> yield demo_site (catalogue_page 2) = 0 \<and>
   catalogue_page 3 \<notin> set (requests (scrape_all_pages demo_site init)) \<and>
   requests (scrape_all_pages demo_site init) = [catalogue_page 1, catalogue_page 2] \<and>
   books_data (scrape_all_pages demo_site init) = new_books demo_site (catalogue_page 1)"
proof -
  note y2 = demo_yield_2
  have y1: "yield demo_site (catalogue_page (Suc 0)) = 2"
    using demo_yield_1 by simp
  from crawl_stops_at_empty_page [of 2 demo_site, OF _ _ y2]
  have no3: "catalogue_page 3 \<notin> set (requests (scrape_all_pages demo_site init))"
    by simp
  have run: "scrape_all_pages demo_site init =
    \<lparr>books_data = new_books demo_site (catalogue_page 1),
     requests = [catalogue_page 1, catalogue_page 2]\<rparr>"
    using y1 y2
    by (simp add: scrape_all_pages_def scrape_page_eq upt_conv_Cons yield_zero_no_books init_def)
  from y2 no3 run show ?thesis by simp
qed


theorem scrape_page_returns_container_count_witness:
  "session_get demo_site (catalogue_page 1) =
     Inr \<lparr>status_code = 200, soup = Inr [demo_article, demo_broken]\<rparr> \<and>
   \<not> (400 \<le> (200::nat) \<and> (200::nat) < 600) \<and>
   book_of_article demo_site demo_broken = Inl AttributeError \<and>
   snd (scrape_page demo_site init (catalogue_page 1)) = 2 \<and>
   length (books_data (fst (scrape_page demo_site init (catalogue_page 1)))) = 1"
proof -
  let ?r = "\<lparr>status_code = 200, soup = Inr [demo_article, demo_broken]\<rparr>"
  have g: "session_get demo_site (catalogue_page 1) = Inr ?r"
    by (simp add: demo_site_def)
  have ok: "\<not> (400 \<le> status_code ?r \<and> status_code ?r < 600)"
    by simp
  have arts: "soup ?r = Inr [demo_article, demo_broken]"
    by simp
  have ex: "extracted demo_site [demo_article, demo_broken] = [demo_record]"
    by (simp add: extracted_def demo_book demo_broken_raises)
  from scrape_page_returns_container_count [OF g ok arts, of init] g ex demo_broken_raises
  show ?thesis by (simp add: init_def)
qed


theorem availability_three_way_witness:
  "book_of_article demo_site demo_article = Inr demo_record \<and>
   instock_availability demo_article = Some ([] @ str ''In stock'' @ []) \<and>
   availability demo_record = str ''In stock'' \<and>
   book_of_article demo_site (demo_article\<lparr>instock_availability := Some (str ''Sold out'')\<rparr>) =
     Inr (demo_record\<lparr>availability := str ''Out of stock''\<rparr>) \<and>
   book_of_article demo_site (demo_article\<lparr>instock_availability := None\<rparr>) =
     Inr (demo_record\<lparr>availability := str ''Unknown''\<rparr>)"
proof -
  have i: "instock_availability demo_article = Some ([] @ str ''In stock'' @ [])"
    by (simp add: demo_article_def)
  from availability_three_way [OF demo_book] i
  have "availability demo_record = str ''In stock''"
    by blast
  moreover have "\<not> str_contains (str ''In stock'') (str ''Sold out'')"
    by (simp add: str_def)
  ultimately show ?thesis
    using i by (simp add: book_of_article_availability_update demo_book availability_of_def)
qed

text \<open>
  Claim C8 says that every appended record has a non-negative price. A container whose
  price text is the pound sign followed by \<open>-5.00\<close> is appended with the price -5.0.
\<close>

theorem negative_price_counterexample:
  "map price (books_data (fst (scrape_page demo_negative_site init (catalogue_page 1)))) =
     [Fin (- 5)] \<and>
   \<not> list_all item_record_invariant
       (books_data (fst (scrape_page demo_negative_site init (catalogue_page 1))))"
  by (simp add: demo_negative_page init_def item_record_invariant_def)

theorem records_keep_rating_and_availability_witness:
  "rating_availability_ok demo_record \<and>
   books_data (fst (scrape_page demo_negative_site \<lparr>books_data = [demo_record], requests = []\<rparr>
      (catalogue_page 1))) = [demo_record, demo_record\<lparr>price := Fin (- 5)\<rparr>] \<and>
   rating_availability_ok (demo_record\<lparr>price := Fin (- 5)\<rparr>)"
proof -
  let ?st = "\<lparr>books_data = [demo_record], requests = []\<rparr>"
  have ok: "rating_availability_ok demo_record"
    by (simp add: rating_availability_ok_def demo_record_def availability_values_def)
  then have "\<forall>b \<in> set (books_data ?st). rating_availability_ok b"
    by simp
  from records_keep_rating_and_availability [OF this, of demo_negative_site "catalogue_page 1"] ok
  show ?thesis by (simp add: demo_negative_page)
qed


end
